theory Spec2Isabelle
  imports Complex_Main "HOL-Library.Sublist"
begin

section \<open>Python values and library functions used by the example scripts\<close>

text \<open>
  Every \<^verbatim>\<open>raise\<close> of the scripts and of the library calls they make is a value of
  \<open>py_error\<close>. \<open>RemoteFailure\<close> stands for whatever the transport behind
  \<^verbatim>\<open>call_tool\<close> raises, kept apart from the errors the scripts and the library raise
  themselves; the scripts never catch it.
\<close>

datatype py_error =
    ValueError | KeyError | TypeError | IndexError | AttributeError | OverflowError
  | RemoteFailure string

text \<open>
  A \<^verbatim>\<open>datetime\<close>: \<open>wall\<close> counts the microseconds from 0001-01-01T00:00:00 on the
  object's own clock face; \<open>utcoffset\<close> is \<open>None\<close> for a naive object and the offset in
  microseconds for an aware one. A \<^verbatim>\<open>timedelta\<close> is a number of microseconds.
\<close>

record datetime =
  wall :: int
  utcoffset :: "int option"

definition day_us :: int where
  "day_us = 86400000000"

definition datetime_max :: int where
  \<comment> \<open>9999-12-31T23:59:59.999999\<close>
  "datetime_max = 315537897599999999"

definition timedelta_days :: "int \<Rightarrow> int" where
  "timedelta_days d = d * day_us"

definition dt_add :: "datetime \<Rightarrow> int \<Rightarrow> py_error + datetime" where
  \<comment> \<open>\<^verbatim>\<open>datetime + timedelta\<close>; a result outside years 1..9999 raises\<close>
  "dt_add d delta =
     (let t = wall d + delta
      in if 0 \<le> t \<and> t \<le> datetime_max then Inr (d\<lparr>wall := t\<rparr>) else Inl OverflowError)"

definition dt_less :: "datetime \<Rightarrow> datetime \<Rightarrow> py_error + bool" where
  \<comment> \<open>\<^verbatim>\<open>a < b\<close>; comparing a naive with an aware datetime raises TypeError\<close>
  "dt_less a b =
     (case (utcoffset a, utcoffset b) of
        (None, None) \<Rightarrow> Inr (wall a < wall b)
      | (Some oa, Some ob) \<Rightarrow> Inr (wall a - oa < wall b - ob)
      | _ \<Rightarrow> Inl TypeError)"

definition dt_sub :: "datetime \<Rightarrow> datetime \<Rightarrow> py_error + int" where
  \<comment> \<open>\<^verbatim>\<open>a - b\<close>, a timedelta; mixing naive and aware raises TypeError\<close>
  "dt_sub a b =
     (case (utcoffset a, utcoffset b) of
        (None, None) \<Rightarrow> Inr (wall a - wall b)
      | (Some oa, Some ob) \<Rightarrow> Inr ((wall a - oa) - (wall b - ob))
      | _ \<Rightarrow> Inl TypeError)"

definition td_days :: "int \<Rightarrow> int" where
  \<comment> \<open>\<^verbatim>\<open>timedelta.days\<close>: whole days, rounded towards minus infinity\<close>
  "td_days delta = delta div day_us"

text \<open>
  Strings are byte strings: a character outside ASCII is the bytes of its UTF-8 encoding,
  as they stand in the source file. \<^verbatim>\<open>str.upper\<close> and \<^verbatim>\<open>str.lower\<close> act on the
  ASCII letters and leave every other byte alone.
\<close>

definition nl :: string where
  "nl = [CHR 0x0A]"

definition upper_char :: "char \<Rightarrow> char" where
  "upper_char c =
     (let n = (of_char c :: nat) in if 97 \<le> n \<and> n \<le> 122 then char_of (n - 32) else c)"


definition upper :: "string \<Rightarrow> string" where
  "upper s = map upper_char s"


fun join :: "string \<Rightarrow> string list \<Rightarrow> string" where
  "join sep [] = []"
| "join sep [x] = x"
| "join sep (x # y # ys) = x @ sep @ join sep (y # ys)"

fun contains :: "string \<Rightarrow> string \<Rightarrow> bool" where
  \<comment> \<open>\<^verbatim>\<open>sub in s\<close>\<close>
  "contains sub [] = (sub = [])"
| "contains sub (c # cs) = (prefix sub (c # cs) \<or> contains sub cs)"


definition digit_char :: "nat \<Rightarrow> char" where
  "digit_char d = char_of (48 + d)"

fun str_nat :: "nat \<Rightarrow> string" where
  "str_nat n = (if n < 10 then [digit_char n] else str_nat (n div 10) @ [digit_char (n mod 10)])"

declare str_nat.simps [simp del]

definition str_int :: "int \<Rightarrow> string" where
  \<comment> \<open>\<^verbatim>\<open>str(n)\<close> for an int, as an f-string interpolates it\<close>
  "str_int i = (if i < 0 then CHR ''-'' # str_nat (nat (- i)) else str_nat (nat i))"


section \<open>The remote service seen through \<^verbatim>\<open>call_tool\<close>\<close>

text \<open>
  The response shapes the scripts rely on. A field read with \<^verbatim>\<open>.get\<close> is optional;
  a field read with \<^verbatim>\<open>[...]\<close> raises KeyError when it is absent.
\<close>

record label =
  label_name :: "string option"

record lst =
  lst_id :: string
  lst_name :: string

record card =
  card_name :: "string option"
  card_labels :: "label list option"
  card_due :: "string option"
  card_dueComplete :: "bool option"
  card_dateLastActivity :: "string option"

datatype response =
    RLists "lst list" | RList lst | RCards "card list" | RCard card | ROther

datatype label_arg = LabelDict label | LabelText string

record add_card_args =
  arg_listId :: string
  arg_name :: string
  arg_description :: string
  arg_dueDate :: "string option"
  arg_labels :: "string list option"

datatype tool_call =
    GetLists
  | AddListToBoard string
  | AddCardToList add_card_args
  | AddChecklistItem string string
  | GetCard string
  | MoveCard string string
  | UpdateCardDetails string "label_arg list"
  | AddComment string string
  | GetCardsByListId string

text \<open>
  The world outside the scripts: the remote calls issued so far (oldest first), the number
  of times the clock has been read, and the lines printed. The environment gives the
  remote service's answer to a call after a given history of calls (\<open>Inl\<close>: the call
  fails with that message), the successive
  readings of \<^verbatim>\<open>datetime.now()\<close> (naive local time), and the library's formatting and
  parsing of datetimes.
\<close>

record world =
  calls :: "tool_call list"
  ticks :: nat
  stdout :: "string list"

record env =
  respond :: "tool_call list \<Rightarrow> tool_call \<Rightarrow> string + response"
  clock :: "nat \<Rightarrow> int"
  isoformat :: "datetime \<Rightarrow> string"
  strftime :: "datetime \<Rightarrow> string \<Rightarrow> string"
  fromisoformat :: "string \<Rightarrow> py_error + datetime"

type_synonym 'a action = "world \<Rightarrow> world \<times> (py_error + 'a)"

definition returnM :: "'a \<Rightarrow> 'a action" where
  "returnM x = (\<lambda>w. (w, Inr x))"

definition raiseM :: "py_error \<Rightarrow> 'a action" where
  "raiseM err = (\<lambda>w. (w, Inl err))"

definition bindM :: "'a action \<Rightarrow> ('a \<Rightarrow> 'b action) \<Rightarrow> 'b action" where
  "bindM m f = (\<lambda>w. case m w of (w', Inl err) \<Rightarrow> (w', Inl err) | (w', Inr x) \<Rightarrow> f x w')"

definition liftM :: "py_error + 'a \<Rightarrow> 'a action" where
  "liftM r = (\<lambda>w. (w, r))"

definition now :: "env \<Rightarrow> datetime action" where
  \<comment> \<open>\<^verbatim>\<open>datetime.now()\<close>\<close>
  "now e = (\<lambda>w. (w\<lparr>ticks := Suc (ticks w)\<rparr>, Inr \<lparr>wall = clock e (ticks w), utcoffset = None\<rparr>))"

definition print :: "string \<Rightarrow> unit action" where
  "print s = (\<lambda>w. (w\<lparr>stdout := stdout w @ [s]\<rparr>, Inr ()))"

definition call_tool :: "env \<Rightarrow> tool_call \<Rightarrow> response action" where
  \<comment> \<open>\<^verbatim>\<open>TrelloMCPClient.call_tool\<close>: a pass-through to the remote service\<close>
  "call_tool e tool =
     (\<lambda>w. (w\<lparr>calls := calls w @ [tool]\<rparr>,
           (case respond e (calls w) tool of
              Inl msg \<Rightarrow> Inl (RemoteFailure msg)
            | Inr r \<Rightarrow> Inr r)))"

text \<open>Reading a response at the shape a script expects of it.\<close>

definition as_lists :: "response \<Rightarrow> py_error + lst list" where
  "as_lists r = (case r of RLists ls \<Rightarrow> Inr ls | _ \<Rightarrow> Inl TypeError)"

definition as_cards :: "response \<Rightarrow> py_error + card list" where
  "as_cards r = (case r of RCards cs \<Rightarrow> Inr cs | _ \<Rightarrow> Inl TypeError)"

definition as_card :: "response \<Rightarrow> py_error + card" where
  "as_card r = (case r of RCard c \<Rightarrow> Inr c | _ \<Rightarrow> Inl TypeError)"

definition as_list :: "response \<Rightarrow> py_error + lst" where
  "as_list r = (case r of RList l \<Rightarrow> Inr l | _ \<Rightarrow> Inl TypeError)"

section \<open>Task priorities and the task manager\<close>

datatype Priority = CRITICAL | HIGH | MEDIUM | LOW

fun priority_value :: "Priority \<Rightarrow> string" where
  "priority_value CRITICAL = ''critical''"
| "priority_value HIGH = ''high''"
| "priority_value MEDIUM = ''medium''"
| "priority_value LOW = ''low''"

record Task =
  name :: string
  description :: string
  priority :: Priority
  assignee :: "string option"
  due_date :: "datetime option"
  labels :: "string list option"
  checklist_items :: "string list option"

record TaskManager =
  priority_lists :: "Priority \<Rightarrow> string option"

definition days_by_priority :: "Priority \<Rightarrow> int" where
  "days_by_priority p = (case p of CRITICAL \<Rightarrow> 1 | HIGH \<Rightarrow> 3 | MEDIUM \<Rightarrow> 7 | LOW \<Rightarrow> 14)"

definition format_task_description :: "env \<Rightarrow> Task \<Rightarrow> string action" where
  \<comment> \<open>\<^verbatim>\<open>TaskManager._format_task_description\<close>\<close>
  "format_task_description e task =
     bindM (now e) (\<lambda>created. returnM (
       ''## Task Details'' @ nl @ nl @
       ''**Priority**: '' @ upper (priority_value (priority task)) @ nl @
       ''**Assigned to**: '' @ (case assignee task of Some a \<Rightarrow> (if a = [] then ''Unassigned'' else a)
                                  | None \<Rightarrow> ''Unassigned'') @ nl @
       ''**Created**: '' @ isoformat e created @ nl @ nl @
       ''### Description'' @ nl @
       description task @ nl @ nl @
       ''### Metadata'' @ nl @
       ''- Priority Level: '' @ priority_value (priority task) @ nl @
       ''- Due Date: '' @ (case due_date task of Some d \<Rightarrow> strftime e d ''%Y-%m-%d %H:%M''
                            | None \<Rightarrow> ''Not set'') @ nl @
       ''- Labels: '' @ (case labels task of Some (l # ls) \<Rightarrow> join '', '' (l # ls)
                          | _ \<Rightarrow> ''None'') @ nl))"

definition assign_due_date :: "env \<Rightarrow> Task \<Rightarrow> Task action" where
  \<comment> \<open>\<^verbatim>\<open>create_task\<close>, the \<^verbatim>\<open>if not task.due_date\<close> block; a datetime is always truthy\<close>
  "assign_due_date e task =
     (case due_date task of
        Some d \<Rightarrow> returnM task
      | None \<Rightarrow>
          bindM (now e) (\<lambda>t.
          bindM (liftM (dt_add t (timedelta_days (days_by_priority (priority task))))) (\<lambda>d.
          returnM (task\<lparr>due_date := Some d\<rparr>))))"

fun add_checklist_items :: "env \<Rightarrow> string list \<Rightarrow> unit action" where
  "add_checklist_items e [] = returnM ()"
| "add_checklist_items e (item # rest) =
     bindM (call_tool e (AddChecklistItem item ''Task Checklist'')) (\<lambda>_.
     add_checklist_items e rest)"

definition add_task_card :: "env \<Rightarrow> TaskManager \<Rightarrow> Task \<Rightarrow> response action" where
  \<comment> \<open>\<^verbatim>\<open>create_task\<close> from \<^verbatim>\<open># Create the card\<close> on; the task already has its due date\<close>
  "add_task_card e self task =
     (case priority_lists self (priority task) of
        None \<Rightarrow> raiseM KeyError
      | Some list_id \<Rightarrow>
          bindM (format_task_description e task) (\<lambda>text.
          bindM (liftM (case due_date task of
                          None \<Rightarrow> Inl AttributeError
                        | Some d \<Rightarrow> Inr (isoformat e d))) (\<lambda>due.
          bindM (call_tool e (AddCardToList
                   \<lparr>arg_listId = list_id,
                    arg_name = name task,
                    arg_description = text,
                    arg_dueDate = Some due,
                    arg_labels = Some (case labels task of Some (l # ls) \<Rightarrow> l # ls
                                        | _ \<Rightarrow> [priority_value (priority task)])\<rparr>)) (\<lambda>card.
          bindM (case checklist_items task of Some (i # is) \<Rightarrow> add_checklist_items e (i # is)
                  | _ \<Rightarrow> returnM ()) (\<lambda>_.
          returnM card)))))"

definition create_task ::
  "env \<Rightarrow> TaskManager \<Rightarrow> Task \<Rightarrow> world \<Rightarrow> Task \<times> world \<times> (py_error + response)" where
  \<comment> \<open>The first component is the caller's \<^verbatim>\<open>task\<close> object after the call: the
      assignment to \<^verbatim>\<open>task.due_date\<close> stays when a later step raises.\<close>
  "create_task e self task w =
     (case assign_due_date e task w of
        (w1, Inl err) \<Rightarrow> (task, w1, Inl err)
      | (w1, Inr task1) \<Rightarrow> (task1, add_task_card e self task1 w1))"

text \<open>\<^verbatim>\<open>TaskManager.escalate_task\<close>.\<close>

definition priority_of_value :: "string \<Rightarrow> Priority option" where
  \<comment> \<open>\<^verbatim>\<open>Priority(value)\<close>; \<open>None\<close> is the ValueError of a value no member has\<close>
  "priority_of_value s =
     (if s = ''critical'' then Some CRITICAL
      else if s = ''high'' then Some HIGH
      else if s = ''medium'' then Some MEDIUM
      else if s = ''low'' then Some LOW
      else None)"

fun infer_priority :: "label list \<Rightarrow> Priority option" where
  \<comment> \<open>The loop setting \<^verbatim>\<open>current_priority\<close>: the first label whose name is a priority
      value wins; a label without a name is passed to \<^verbatim>\<open>Priority\<close> as the dict itself,
      which also raises ValueError and is skipped.\<close>
  "infer_priority [] = None"
| "infer_priority (l # ls) =
     (case label_name l of
        None \<Rightarrow> infer_priority ls
      | Some s \<Rightarrow> (case priority_of_value s of Some p \<Rightarrow> Some p | None \<Rightarrow> infer_priority ls))"

definition priority_order :: "Priority list" where
  "priority_order = [LOW, MEDIUM, HIGH, CRITICAL]"

fun py_index :: "'a list \<Rightarrow> 'a \<Rightarrow> py_error + nat" where
  \<comment> \<open>\<^verbatim>\<open>list.index\<close>\<close>
  "py_index [] x = Inl ValueError"
| "py_index (y # ys) x =
     (if y = x then Inr 0 else (case py_index ys x of Inl err \<Rightarrow> Inl err | Inr i \<Rightarrow> Inr (Suc i)))"

definition py_nth :: "'a list \<Rightarrow> nat \<Rightarrow> py_error + 'a" where
  "py_nth xs i = (if i < length xs then Inr (xs ! i) else Inl IndexError)"

definition warning_sign :: string where
  \<comment> \<open>the bytes before \<^verbatim>\<open>**Task Escalated**\<close> and \<^verbatim>\<open>WIP LIMIT EXCEEDED\<close> in the source file\<close>
  "warning_sign = [CHR 0xC3, CHR 0xA2, CHR 0xC5, CHR 0xA1, CHR 0xC2, CHR 0xA0,
                   CHR 0xC3, CHR 0xAF, CHR 0xC2, CHR 0xB8]"

definition escalation_text :: "env \<Rightarrow> Priority \<Rightarrow> Priority \<Rightarrow> string \<Rightarrow> datetime \<Rightarrow> string" where
  "escalation_text e cur new reason t =
     warning_sign @ '' **Task Escalated**'' @ nl @ nl @
     ''**From**: '' @ upper (priority_value cur) @ nl @
     ''**To**: '' @ upper (priority_value new) @ nl @
     ''**Reason**: '' @ reason @ nl @
     ''**Escalated by**: System'' @ nl @
     ''**Time**: '' @ isoformat e t"

definition escalate_task :: "env \<Rightarrow> TaskManager \<Rightarrow> string \<Rightarrow> string \<Rightarrow> unit action" where
  \<comment> \<open>\<^verbatim>\<open>current_priority\<close> is a priority or \<^verbatim>\<open>None\<close>, and
      \<^verbatim>\<open>priority_order.index\<close> looks for it among the four priorities\<close>
  "escalate_task e self card_id reason =
     bindM (call_tool e (GetCard card_id)) (\<lambda>r.
     bindM (liftM (as_card r)) (\<lambda>card.
       let label_list = (case card_labels card of Some ls \<Rightarrow> ls | None \<Rightarrow> []);
           current_priority = infer_priority label_list
       in if current_priority = Some CRITICAL
          then print ''Task is already at highest priority''
          else
            bindM (liftM (py_index (map Some priority_order) current_priority)) (\<lambda>current_index.
            bindM (liftM (py_nth priority_order (current_index + 1))) (\<lambda>new_priority.
            bindM (liftM (case priority_lists self new_priority of
                            None \<Rightarrow> Inl KeyError | Some list_id \<Rightarrow> Inr list_id)) (\<lambda>list_id.
            bindM (call_tool e (MoveCard card_id list_id)) (\<lambda>_.
            bindM (liftM (case current_priority of
                            None \<Rightarrow> Inl AttributeError | Some cur \<Rightarrow> Inr cur)) (\<lambda>cur.
              let new_labels =
                    map LabelDict
                      (filter (\<lambda>l. label_name l \<noteq> Some (priority_value cur)) label_list)
                    @ [LabelText (priority_value new_priority)]
              in
            bindM (call_tool e (UpdateCardDetails card_id new_labels)) (\<lambda>_.
            bindM (now e) (\<lambda>t.
            bindM (call_tool e (AddComment card_id
                     (escalation_text e cur new_priority reason t))) (\<lambda>_.
            returnM ()))))))))))"

section \<open>Kanban automation\<close>

record KanbanAutomation =
  workflow_stages :: "string list"
  stage_lists :: "string \<Rightarrow> string option"

definition KanbanAutomation_init :: KanbanAutomation where
  "KanbanAutomation_init =
     \<lparr>workflow_stages = [''Backlog'', ''To Do'', ''In Progress'', ''Review'', ''Testing'', ''Done''],
      stage_lists = Map.empty\<rparr>"

fun setup_stages ::
  "env \<Rightarrow> string list \<Rightarrow> KanbanAutomation \<Rightarrow> world
     \<Rightarrow> KanbanAutomation \<times> world \<times> (py_error + unit)" where
  "setup_stages e [] self w = (self, w, Inr ())"
| "setup_stages e (stage # rest) self w =
     (case bindM (call_tool e (AddListToBoard stage)) (\<lambda>r. liftM (as_list r)) w of
        (w1, Inl err) \<Rightarrow> (self, w1, Inl err)
      | (w1, Inr list_data) \<Rightarrow>
          setup_stages e rest
            (self\<lparr>stage_lists := (stage_lists self)(stage \<mapsto> lst_id list_data)\<rparr>) w1)"

definition setup_kanban_board ::
  "env \<Rightarrow> KanbanAutomation \<Rightarrow> world \<Rightarrow> KanbanAutomation \<times> world \<times> (py_error + unit)" where
  \<comment> \<open>The first component is the object after the call.\<close>
  "setup_kanban_board e self w = setup_stages e (workflow_stages self) self w"

definition arrow_sign :: string where
  \<comment> \<open>the bytes before \<^verbatim>\<open>Moved to\<close> in the source file\<close>
  "arrow_sign = [CHR 0xC3, CHR 0xA2, CHR 0xC5, CHR 0xBE, CHR 0xC2, CHR 0xA1,
                 CHR 0xC3, CHR 0xAF, CHR 0xC2, CHR 0xB8]"

definition move_card_to_stage ::
  "env \<Rightarrow> KanbanAutomation \<Rightarrow> string \<Rightarrow> string \<Rightarrow> string option \<Rightarrow> unit action" where
  "move_card_to_stage e self card_id stage comment =
     (case stage_lists self stage of
        None \<Rightarrow> raiseM ValueError
      | Some list_id \<Rightarrow>
          bindM (call_tool e (MoveCard card_id list_id)) (\<lambda>_.
          (case comment of
             None \<Rightarrow> returnM ()
           | Some text \<Rightarrow>
               if text = [] then returnM ()
               else bindM (call_tool e (AddComment card_id
                             (arrow_sign @ '' Moved to **'' @ stage @ ''**'' @ nl @ nl @ text)))
                      (\<lambda>_. returnM ()))))"

definition wip_warning :: "string \<Rightarrow> string \<Rightarrow> nat \<Rightarrow> int \<Rightarrow> add_card_args" where
  \<comment> \<open>the warning card of \<^verbatim>\<open>apply_wip_limits\<close>, for a list holding \<open>n\<close> cards\<close>
  "wip_warning list_id stage n limit =
     \<lparr>arg_listId = list_id,
      arg_name = warning_sign @ '' WIP LIMIT EXCEEDED'',
      arg_description =
        ''## WIP Limit Violation'' @ nl @ nl @
        ''The **'' @ stage @ ''** column has exceeded its WIP limit.'' @ nl @ nl @
        ''- **Current cards**: '' @ str_int (int n) @ nl @
        ''- **WIP Limit**: '' @ str_int limit @ nl @
        ''- **Excess**: '' @ str_int (int n - limit) @ nl @ nl @
        ''### Action Required'' @ nl @
        ''Please complete work in progress before pulling new items.'',
      arg_dueDate = None,
      arg_labels = Some [''warning'', ''wip-violation'']\<rparr>"

fun apply_wip_limits :: "env \<Rightarrow> KanbanAutomation \<Rightarrow> (string \<times> int) list \<Rightarrow> unit action" where
  \<comment> \<open>\<open>limits\<close> is \<^verbatim>\<open>limits.items()\<close>, in the dict's order\<close>
  "apply_wip_limits e self [] = returnM ()"
| "apply_wip_limits e self ((stage, limit) # rest) =
     (case stage_lists self stage of
        None \<Rightarrow> apply_wip_limits e self rest
      | Some list_id \<Rightarrow>
          bindM (call_tool e (GetCardsByListId list_id)) (\<lambda>r.
          bindM (liftM (as_cards r)) (\<lambda>cards.
          bindM (if int (length cards) > limit
                 then bindM (call_tool e (AddCardToList
                               (wip_warning list_id stage (length cards) limit)))
                        (\<lambda>_. returnM ())
                 else returnM ()) (\<lambda>_.
          apply_wip_limits e self rest))))"

section \<open>Retrospectives\<close>

definition votes_sign :: string where
  \<comment> \<open>the bytes between \<^verbatim>\<open>(\<close> and the vote count in the source file\<close>
  "votes_sign = [CHR 0xC3, CHR 0xB0, CHR 0xC5, CHR 0xB8, CHR 0xE2, CHR 0x80, CHR 0x98]"

definition retro_card :: "env \<Rightarrow> string \<Rightarrow> string \<Rightarrow> string \<Rightarrow> int \<Rightarrow> datetime \<Rightarrow> add_card_args" where
  \<comment> \<open>the vote-annotated card of \<^verbatim>\<open>add_retro_item\<close>\<close>
  "retro_card e list_id title text votes t =
     \<lparr>arg_listId = list_id,
      arg_name = title @ '' ('' @ votes_sign @ '' '' @ str_int votes @ '')'',
      arg_description =
        text @ nl @ nl @
        ''---'' @ nl @
        ''**Votes**: '' @ str_int votes @ nl @
        ''**Added by**: Team'' @ nl @
        ''**Date**: '' @ isoformat e t,
      arg_dueDate = None,
      arg_labels = None\<rparr>"

definition add_retro_item :: "env \<Rightarrow> string \<Rightarrow> string \<Rightarrow> string \<Rightarrow> int \<Rightarrow> response action" where
  "add_retro_item e list_name title text votes =
     bindM (call_tool e GetLists) (\<lambda>r.
     bindM (liftM (as_lists r)) (\<lambda>lists.
       let target_list = map_option lst_id (find (\<lambda>l. contains list_name (lst_name l)) lists)
       in (case target_list of
             None \<Rightarrow> raiseM ValueError
           | Some list_id \<Rightarrow>
               if list_id = [] then raiseM ValueError
               else bindM (now e) (\<lambda>t.
                    call_tool e (AddCardToList (retro_card e list_id title text votes t))))))"

section \<open>Project analytics\<close>


fun dict_set :: "('k \<times> 'v) list \<Rightarrow> 'k \<Rightarrow> 'v \<Rightarrow> ('k \<times> 'v) list" where
  \<comment> \<open>\<^verbatim>\<open>d[k] = v\<close> on a dict kept in insertion order\<close>
  "dict_set [] k v = [(k, v)]"
| "dict_set ((k', v') # d) k v = (if k' = k then (k, v) # d else (k', v') # dict_set d k v)"












text \<open>\<^verbatim>\<open>generate_health_metrics\<close>. The entries of \<^verbatim>\<open>overdue_cards\<close> and \<^verbatim>\<open>stale_cards\<close>
  are (name, timestamp, list name), those of \<^verbatim>\<open>blocked_cards\<close> are (name, list name), and
  an entry of \<^verbatim>\<open>lists\<close> is (count, percentage); the float percentage is kept as the exact
  quotient.\<close>

definition replace_Z :: "string \<Rightarrow> string" where
  \<comment> \<open>\<^verbatim>\<open>s.replace('Z', '+00:00')\<close>\<close>
  "replace_Z s = concat (map (\<lambda>c. if c = CHR ''Z'' then ''+00:00'' else [c]) s)"

record metrics =
  timestamp :: string
  list_stats :: "(string \<times> (nat \<times> rat)) list"
  overdue_cards :: "(string \<times> string \<times> string) list"
  blocked_cards :: "(string \<times> string) list"
  stale_cards :: "(string \<times> string \<times> string) list"
  total_cards :: int
  health_score :: int

definition check_overdue :: "env \<Rightarrow> datetime \<Rightarrow> lst \<Rightarrow> card \<Rightarrow> metrics \<Rightarrow> py_error + metrics" where
  "check_overdue e now_t l c m =
     (case card_due c of
        None \<Rightarrow> Inr m
      | Some due \<Rightarrow>
          if due = [] then Inr m
          else (case fromisoformat e (replace_Z due) of
                  Inl err \<Rightarrow> Inl err
                | Inr due_dt \<Rightarrow>
                    (case dt_less due_dt now_t of
                       Inl err \<Rightarrow> Inl err
                     | Inr before \<Rightarrow>
                         if before \<and> card_dueComplete c \<noteq> Some True
                         then (case card_name c of
                                 None \<Rightarrow> Inl KeyError
                               | Some n \<Rightarrow>
                                   Inr (m\<lparr>overdue_cards := overdue_cards m @ [(n, due, lst_name l)],
                                          health_score := health_score m - 5\<rparr>))
                         else Inr m)))"

definition check_blocked :: "lst \<Rightarrow> card \<Rightarrow> metrics \<Rightarrow> py_error + metrics" where
  "check_blocked l c m =
     (if list_ex (\<lambda>lb. label_name lb = Some ''blocked'')
           (case card_labels c of Some ls \<Rightarrow> ls | None \<Rightarrow> [])
      then (case card_name c of
              None \<Rightarrow> Inl KeyError
            | Some n \<Rightarrow>
                Inr (m\<lparr>blocked_cards := blocked_cards m @ [(n, lst_name l)],
                       health_score := health_score m - 3\<rparr>))
      else Inr m)"

definition check_stale :: "env \<Rightarrow> datetime \<Rightarrow> lst \<Rightarrow> card \<Rightarrow> metrics \<Rightarrow> py_error + metrics" where
  "check_stale e now_t l c m =
     (case card_dateLastActivity c of
        None \<Rightarrow> Inr m
      | Some stamp \<Rightarrow>
          if stamp = [] then Inr m
          else (case fromisoformat e (replace_Z stamp) of
                  Inl err \<Rightarrow> Inl err
                | Inr last_activity \<Rightarrow>
                    (case dt_sub now_t last_activity of
                       Inl err \<Rightarrow> Inl err
                     | Inr delta \<Rightarrow>
                         if td_days delta > 14
                         then (case card_name c of
                                 None \<Rightarrow> Inl KeyError
                               | Some n \<Rightarrow>
                                   Inr (m\<lparr>stale_cards := stale_cards m @ [(n, stamp, lst_name l)],
                                          health_score := health_score m - 1\<rparr>))
                         else Inr m)))"

fun health_cards :: "env \<Rightarrow> datetime \<Rightarrow> lst \<Rightarrow> card list \<Rightarrow> metrics \<Rightarrow> py_error + metrics" where
  "health_cards e now_t l [] m = Inr m"
| "health_cards e now_t l (c # cs) m =
     (case check_overdue e now_t l c m of
        Inl err \<Rightarrow> Inl err
      | Inr m1 \<Rightarrow>
          (case check_blocked l c m1 of
             Inl err \<Rightarrow> Inl err
           | Inr m2 \<Rightarrow>
               (case check_stale e now_t l c m2 of
                  Inl err \<Rightarrow> Inl err
                | Inr m3 \<Rightarrow> health_cards e now_t l cs m3)))"

fun health_lists :: "env \<Rightarrow> datetime \<Rightarrow> lst list \<Rightarrow> metrics \<Rightarrow> metrics action" where
  "health_lists e now_t [] m = returnM m"
| "health_lists e now_t (l # ls) m =
     bindM (call_tool e (GetCardsByListId (lst_id l))) (\<lambda>r.
     bindM (liftM (as_cards r)) (\<lambda>cards.
     bindM (liftM (health_cards e now_t l cards
                     (m\<lparr>list_stats := dict_set (list_stats m) (lst_name l) (length cards, 0),
                        total_cards := total_cards m + int (length cards)\<rparr>))) (\<lambda>m1.
     health_lists e now_t ls m1)))"

definition set_percentages :: "metrics \<Rightarrow> metrics" where
  \<comment> \<open>the \<^verbatim>\<open># Calculate percentages\<close> block\<close>
  "set_percentages m =
     (if total_cards m > 0
      then m\<lparr>list_stats :=
               map (\<lambda>(list_name, n, _). (list_name, n, of_nat n / of_int (total_cards m) * 100))
                 (list_stats m)\<rparr>
      else m)"

definition generate_health_metrics :: "env \<Rightarrow> metrics action" where
  "generate_health_metrics e =
     bindM (now e) (\<lambda>t0.
     bindM (call_tool e GetLists) (\<lambda>r.
     bindM (liftM (as_lists r)) (\<lambda>lists.
     bindM (now e) (\<lambda>now_t.
     bindM (health_lists e now_t lists
              \<lparr>timestamp = isoformat e t0, list_stats = [], overdue_cards = [],
               blocked_cards = [], stale_cards = [], total_cards = 0, health_score = 100\<rparr>)
       (\<lambda>m.
     returnM ((set_percentages m)\<lparr>health_score := max 0 (health_score (set_percentages m))\<rparr>))))))"

section \<open>Auxiliary notions for the statements\<close>



text \<open>
  What \<^verbatim>\<open>generate_health_metrics\<close> counts, for cards whose timestamps carry no UTC offset.
\<close>

definition overdue :: "env \<Rightarrow> int \<Rightarrow> card \<Rightarrow> bool" where
  \<comment> \<open>due is set, lies before the naive instant \<open>t\<close>, and the card is not complete\<close>
  "overdue e t c =
     (case card_due c of
        None \<Rightarrow> False
      | Some s \<Rightarrow>
          s \<noteq> [] \<and>
          (case fromisoformat e (replace_Z s) of
             Inl err \<Rightarrow> False
           | Inr d \<Rightarrow> wall d < t \<and> card_dueComplete c \<noteq> Some True))"

definition blocked :: "card \<Rightarrow> bool" where
  "blocked c = (\<exists>lb \<in> set (case card_labels c of Some ls \<Rightarrow> ls | None \<Rightarrow> []).
                  label_name lb = Some ''blocked'')"

definition stale :: "env \<Rightarrow> int \<Rightarrow> card \<Rightarrow> bool" where
  \<comment> \<open>the last activity lies 15 whole days or more before the naive instant \<open>t\<close>\<close>
  "stale e t c =
     (case card_dateLastActivity c of
        None \<Rightarrow> False
      | Some s \<Rightarrow>
          s \<noteq> [] \<and>
          (case fromisoformat e (replace_Z s) of
             Inl err \<Rightarrow> False
           | Inr d \<Rightarrow> 15 * 86400000000 \<le> t - wall d))"

definition plain_card :: "env \<Rightarrow> card \<Rightarrow> bool" where
  \<comment> \<open>the card has a name, and its timestamps parse to naive datetimes\<close>
  "plain_card e c \<longleftrightarrow>
     card_name c \<noteq> None \<and>
     (\<forall>s. (card_due c = Some s \<or> card_dateLastActivity c = Some s) \<and> s \<noteq> [] \<longrightarrow>
          (\<exists>d. fromisoformat e (replace_Z s) = Inr d \<and> utcoffset d = None))"

definition penalty :: "env \<Rightarrow> int \<Rightarrow> card \<Rightarrow> int" where
  "penalty e t c =
     (if overdue e t c then 5 else 0) + (if blocked c then 3 else 0)
       + (if stale e t c then 1 else 0)"

section \<open>Example inputs\<close>

text \<open>
  A clock that starts on 2025-11-29 at 08:00 and advances by a microsecond per reading, and stand-ins
  for the library's formatting of datetimes; the remote service and the parser of ISO
  strings are given per example.
\<close>

definition ex_env ::
  "(tool_call list \<Rightarrow> tool_call \<Rightarrow> string + response) \<Rightarrow> (string \<Rightarrow> py_error + datetime) \<Rightarrow> env" where
  "ex_env rsp parse =
     \<lparr>respond = rsp,
      clock = (\<lambda>n. 63900000000000000 + int n),
      isoformat = (\<lambda>d. str_int (wall d)),
      strftime = (\<lambda>d f. str_int (wall d)),
      fromisoformat = parse\<rparr>"

definition no_parse :: "string \<Rightarrow> py_error + datetime" where
  "no_parse s = Inl ValueError"

definition ex_world :: world where
  "ex_world = \<lparr>calls = [], ticks = 0, stdout = []\<rparr>"

definition ex_manager :: TaskManager where
  "ex_manager = \<lparr>priority_lists = (\<lambda>p. Some (''list-'' @ priority_value p))\<rparr>"

definition ex_task :: Task where
  "ex_task =
     \<lparr>name = ''Fix'', description = ''Pool exhausted'', priority = HIGH, assignee = None,
      due_date = None, labels = None, checklist_items = Some [''Find cause'', ''Deploy'']\<rparr>"

definition ex_card :: "string \<Rightarrow> string list \<Rightarrow> card" where
  \<comment> \<open>a card with a title and labels of the given names\<close>
  "ex_card title names =
     \<lparr>card_name = Some title,
      card_labels = Some (map (\<lambda>n. \<lparr>label_name = Some n\<rparr>) names),
      card_due = None, card_dueComplete = None, card_dateLastActivity = None\<rparr>"

definition ex_answer :: "response \<Rightarrow> tool_call list \<Rightarrow> tool_call \<Rightarrow> string + response" where
  \<comment> \<open>a remote service that gives the same answer to every call\<close>
  "ex_answer r h c = Inr r"

definition ex_board :: "tool_call list \<Rightarrow> tool_call \<Rightarrow> string + response" where
  \<comment> \<open>a remote service that creates the list asked for, and holds three cards in every
      list\<close>
  "ex_board h c =
     (case c of
        AddListToBoard n \<Rightarrow> Inr (RList \<lparr>lst_id = ''id-'' @ n, lst_name = n\<rparr>)
      | GetCardsByListId i \<Rightarrow>
          Inr (RCards [ex_card ''one'' [], ex_card ''two'' [], ex_card ''three'' []])
      | _ \<Rightarrow> Inr ROther)"

definition ex_kanban :: KanbanAutomation where
  \<comment> \<open>the automation object after \<^verbatim>\<open>setup_kanban_board\<close>\<close>
  "ex_kanban = fst (setup_kanban_board (ex_env ex_board no_parse) KanbanAutomation_init ex_world)"

definition ex_retro_lists :: "lst list" where
  "ex_retro_lists =
     [\<lparr>lst_id = ''r1'', lst_name = ''Sprint 23 - What Went Well''\<rparr>,
      \<lparr>lst_id = ''r2'', lst_name = ''Sprint 23 - What Could Be Improved''\<rparr>,
      \<lparr>lst_id = ''r3'', lst_name = ''Sprint 24 - What Went Well''\<rparr>]"




definition ex_parse_utc :: "string \<Rightarrow> py_error + datetime" where
  \<comment> \<open>\<^verbatim>\<open>datetime.fromisoformat\<close> on the one string of the example below: midnight of
      2020-01-01, aware, at offset zero\<close>
  "ex_parse_utc s =
     (if s = ''2020-01-01T00:00:00.000+00:00''
      then Inr \<lparr>wall = 63713433600000000, utcoffset = Some 0\<rparr>
      else Inl ValueError)"

definition ex_overdue_board :: "tool_call list \<Rightarrow> tool_call \<Rightarrow> string + response" where
  \<comment> \<open>one list holding one open card that was due on 2020-01-01, with the timestamp as
      the service writes it\<close>
  "ex_overdue_board h c =
     (case c of
        GetLists \<Rightarrow> Inr (RLists [\<lparr>lst_id = ''t'', lst_name = ''To Do''\<rparr>])
      | GetCardsByListId i \<Rightarrow>
          Inr (RCards [\<lparr>card_name = Some ''Pay invoice'', card_labels = None,
                        card_due = Some ''2020-01-01T00:00:00.000Z'',
                        card_dueComplete = Some False, card_dateLastActivity = None\<rparr>])
      | _ \<Rightarrow> Inr ROther)"

section \<open>Task manager\<close>

lemma assign_due_date_result:
  assumes "0 \<le> clock e (ticks w)" and "clock e (ticks w) + 14 * day_us \<le> datetime_max"
  shows "assign_due_date e task w =
     (case due_date task of
        Some d \<Rightarrow> (w, Inr task)
      | None \<Rightarrow> (w\<lparr>ticks := Suc (ticks w)\<rparr>,
          Inr (task\<lparr>due_date := Some \<lparr>wall = clock e (ticks w) + days_by_priority (priority task) * day_us,
                                       utcoffset = None\<rparr>\<rparr>)))"
proof -
  have "0 \<le> days_by_priority (priority task) \<and> days_by_priority (priority task) \<le> 14"
    by (cases "priority task") (simp_all add: days_by_priority_def)
  then have "0 \<le> days_by_priority (priority task) * day_us"
    and "days_by_priority (priority task) * day_us \<le> 14 * day_us"
    by (simp_all add: day_us_def)
  with assms show ?thesis
    by (simp add: assign_due_date_def bindM_def returnM_def liftM_def now_def dt_add_def
        timedelta_days_def Let_def split: option.splits)
qed

lemma add_checklist_items_calls:
  "\<exists>rest. calls (fst (add_checklist_items e items w)) = calls w @ rest"
proof (induction items arbitrary: w)
  case Nil
  then show ?case by (simp add: returnM_def)
next
  case (Cons item items)
  show ?case
  proof (cases "respond e (calls w) (AddChecklistItem item ''Task Checklist'')")
    case (Inl err)
    then show ?thesis by (simp add: bindM_def call_tool_def)
  next
    case (Inr r)
    from Cons.IH [of "w\<lparr>calls := calls w @ [AddChecklistItem item ''Task Checklist'']\<rparr>"]
    obtain rest where "calls (fst (add_checklist_items e items
        (w\<lparr>calls := calls w @ [AddChecklistItem item ''Task Checklist'']\<rparr>))) =
        calls w @ AddChecklistItem item ''Task Checklist'' # rest"
      by auto
    with Inr show ?thesis by (simp add: bindM_def call_tool_def)
  qed
qed

lemma format_task_description_world:
  "fst (format_task_description e task w) = w\<lparr>ticks := Suc (ticks w)\<rparr>"
  "\<exists>body. snd (format_task_description e task w) = Inr body"
  by (simp_all add: format_task_description_def bindM_def now_def returnM_def)

lemma add_task_card_calls:
  assumes "priority_lists self (priority task) = Some lid" and "due_date task = Some dd"
  shows "\<exists>body rest. calls (fst (add_task_card e self task w)) =
           calls w @ AddCardToList
             \<lparr>arg_listId = lid, arg_name = name task, arg_description = body,
              arg_dueDate = Some (isoformat e dd),
              arg_labels = Some (case labels task of Some (l # ls) \<Rightarrow> l # ls
                                  | _ \<Rightarrow> [priority_value (priority task)])\<rparr> # rest"
proof -
  obtain body where f: "format_task_description e task w = (w\<lparr>ticks := Suc (ticks w)\<rparr>, Inr body)"
    using format_task_description_world [of e task w] by (metis prod.collapse)
  define a where "a = \<lparr>arg_listId = lid, arg_name = name task, arg_description = body,
              arg_dueDate = Some (isoformat e dd),
              arg_labels = Some (case labels task of Some (l # ls) \<Rightarrow> l # ls
                                  | _ \<Rightarrow> [priority_value (priority task)])\<rparr>"
  define w1 where "w1 = w\<lparr>ticks := Suc (ticks w), calls := calls w @ [AddCardToList a]\<rparr>"
  have "\<exists>rest. calls (fst (add_task_card e self task w)) = calls w @ AddCardToList a # rest"
  proof (cases "respond e (calls w) (AddCardToList a)")
    case (Inl err)
    then show ?thesis
      using assms f
      by (simp add: add_task_card_def bindM_def call_tool_def liftM_def a_def [symmetric])
  next
    case (Inr crd)
    let ?items = "case checklist_items task of Some (i # is) \<Rightarrow> i # is | _ \<Rightarrow> []"
    have k: "(case checklist_items task of Some (i # is) \<Rightarrow> add_checklist_items e (i # is)
                  | _ \<Rightarrow> returnM ()) = add_checklist_items e ?items"
      by (simp split: option.splits list.splits)
    obtain rest where r: "calls (fst (add_checklist_items e ?items w1)) = calls w1 @ rest"
      using add_checklist_items_calls by blast
    have "calls (fst (add_task_card e self task w)) = calls (fst (add_checklist_items e ?items w1))"
      using assms f Inr unfolding add_task_card_def k
      by (simp add: bindM_def returnM_def call_tool_def liftM_def a_def [symmetric] w1_def
          split: prod.splits sum.splits)
    with r show ?thesis by (simp add: w1_def)
  qed
  then show ?thesis unfolding a_def by blast
qed

text \<open>
  C1. A task without a due date leaves \<^verbatim>\<open>create_task\<close> with the due date set to the
  clock reading plus 1 day (critical), 3 days (high), 7 days (medium) or 14 days (low); a
  task with a due date keeps it. When the priority has a list, the card is created with
  that due date, ISO-formatted. The clock reading is taken at least 14 days before the
  last representable datetime, so that the sum is a datetime.
\<close>

theorem create_task_due_date:
  assumes "0 \<le> clock e (ticks w)"
      and "clock e (ticks w) + 14 * 86400000000 \<le> 315537897599999999"
  shows "due_date (fst (create_task e self task w)) =
           (case due_date task of
              Some d \<Rightarrow> Some d
            | None \<Rightarrow>
                Some \<lparr>wall = clock e (ticks w) +
                        (case priority task of CRITICAL \<Rightarrow> 1 | HIGH \<Rightarrow> 3 | MEDIUM \<Rightarrow> 7 | LOW \<Rightarrow> 14)
                          * 86400000000,
                      utcoffset = None\<rparr>)
         \<and> (priority_lists self (priority task) \<noteq> None \<longrightarrow>
              (\<exists>a rest. calls (fst (snd (create_task e self task w))) =
                           calls w @ AddCardToList a # rest
                 \<and> arg_dueDate a =
                     map_option (isoformat e) (due_date (fst (create_task e self task w)))))"
proof -
  obtain w1 task1 where a: "assign_due_date e task w = (w1, Inr task1)"
    and w1: "calls w1 = calls w" and t1: "priority task1 = priority task"
    and d: "due_date task1 = (case due_date task of
              Some d \<Rightarrow> Some d
            | None \<Rightarrow>
                Some \<lparr>wall = clock e (ticks w) +
                        (case priority task of CRITICAL \<Rightarrow> 1 | HIGH \<Rightarrow> 3 | MEDIUM \<Rightarrow> 7 | LOW \<Rightarrow> 14)
                          * 86400000000,
                      utcoffset = None\<rparr>)"
    using assign_due_date_result [of e w task] assms
    by (cases "due_date task")
      (simp_all add: day_us_def datetime_max_def days_by_priority_def)
  have c: "create_task e self task w = (task1, add_task_card e self task1 w1)"
    using a by (simp add: create_task_def)
  from d obtain dd where dd: "due_date task1 = Some dd"
    by (cases "due_date task") simp_all
  have "\<exists>a rest. calls (fst (add_task_card e self task1 w1)) = calls w @ AddCardToList a # rest
           \<and> arg_dueDate a = map_option (isoformat e) (due_date task1)"
    if "priority_lists self (priority task) = Some lid" for lid
  proof -
    from that t1 have "priority_lists self (priority task1) = Some lid" by simp
    from add_task_card_calls [OF this dd, of e w1] w1 dd show ?thesis
      by (metis add_card_args.select_convs(4) option.simps(9))
  qed
  with c d show ?thesis by auto
qed

theorem create_task_due_date_witness:
  "0 \<le> clock (ex_env (ex_answer ROther) no_parse) (ticks ex_world)
   \<and> clock (ex_env (ex_answer ROther) no_parse) (ticks ex_world) + 14 * 86400000000
       \<le> 315537897599999999
   \<and> priority_lists ex_manager (priority ex_task) \<noteq> None
   \<and> due_date (fst (create_task (ex_env (ex_answer ROther) no_parse) ex_manager ex_task ex_world))
       = Some \<lparr>wall = 63900000000000000 + 3 * 86400000000, utcoffset = None\<rparr>"
  using create_task_due_date [of "ex_env (ex_answer ROther) no_parse" ex_world ex_manager ex_task]
  by (simp add: ex_env_def ex_world_def ex_task_def ex_manager_def)

text \<open>
  C10. When the priority has a list and the due date can be computed, \<^verbatim>\<open>create_task\<close>
  issues the card creation as its first call, on that list; its labels are the one-element
  list of the priority's value when the task's labels are absent or empty, and the task's
  own labels, unchanged, otherwise.
\<close>

theorem create_task_labels:
  assumes "priority_lists self (priority task) = Some lid"
      and "0 \<le> clock e (ticks w)"
      and "clock e (ticks w) + 14 * 86400000000 \<le> 315537897599999999"
  shows "\<exists>a rest. calls (fst (snd (create_task e self task w))) = calls w @ AddCardToList a # rest
           \<and> arg_listId a = lid
           \<and> arg_labels a =
               Some (if labels task = None \<or> labels task = Some []
                     then [priority_value (priority task)] else the (labels task))"
proof -
  obtain w1 task1 dd where a: "assign_due_date e task w = (w1, Inr task1)"
    and w1: "calls w1 = calls w" and t1: "labels task1 = labels task" "priority task1 = priority task"
    and dd: "due_date task1 = Some dd"
    using assign_due_date_result [of e w task] assms(2,3)
    by (cases "due_date task") (simp_all add: day_us_def datetime_max_def)
  from assms(1) t1 have "priority_lists self (priority task1) = Some lid" by simp
  from add_task_card_calls [OF this dd, of e w1] obtain body rest where
    "calls (fst (add_task_card e self task1 w1)) =
       calls w1 @ AddCardToList
             \<lparr>arg_listId = lid, arg_name = name task1, arg_description = body,
              arg_dueDate = Some (isoformat e dd),
              arg_labels = Some (case labels task1 of Some (l # ls) \<Rightarrow> l # ls
                                  | _ \<Rightarrow> [priority_value (priority task1)])\<rparr> # rest"
    by blast
  then show ?thesis
    using a w1 t1
    by (auto simp: create_task_def split: option.splits list.splits)
qed

theorem create_task_labels_witness:
  "priority_lists ex_manager (priority ex_task) = Some ''list-high''
   \<and> 0 \<le> clock (ex_env (ex_answer ROther) no_parse) (ticks ex_world)
   \<and> clock (ex_env (ex_answer ROther) no_parse) (ticks ex_world) + 14 * 86400000000
       \<le> 315537897599999999
   \<and> (\<exists>a rest. calls (fst (snd (create_task (ex_env (ex_answer ROther) no_parse)
                                    ex_manager ex_task ex_world)))
                  = AddCardToList a # rest
        \<and> arg_listId a = ''list-high'' \<and> arg_labels a = Some [''high''])"
  using create_task_labels [of ex_manager ex_task "''list-high''"
      "ex_env (ex_answer ROther) no_parse" ex_world]
  by (simp add: ex_env_def ex_world_def ex_task_def ex_manager_def)

lemma priority_of_value_None:
  "priority_of_value s = None \<longleftrightarrow> s \<notin> {''critical'', ''high'', ''medium'', ''low''}"
  by (simp add: priority_of_value_def)

lemma infer_priority_none:
  assumes "\<forall>l \<in> set ls. label_name l \<notin> Some ` {''critical'', ''high'', ''medium'', ''low''}"
  shows "infer_priority ls = None"
  using assms
proof (induction ls)
  case Nil
  then show ?case by simp
next
  case (Cons l ls)
  then have "infer_priority ls = None" by simp
  moreover have "label_name l = Some s \<Longrightarrow> priority_of_value s = None" for s
    using Cons.prems by (auto simp: priority_of_value_None)
  ultimately show ?case by (simp split: option.splits)
qed

lemma infer_priority_first:
  assumes "\<forall>p \<in> set pre. label_name p \<notin> Some ` {''critical'', ''high'', ''medium'', ''low''}"
      and "label_name l = Some s" and "priority_of_value s = Some q"
  shows "infer_priority (pre @ l # post) = Some q"
  using assms(1)
proof (induction pre)
  case Nil
  then show ?case using assms(2,3) by simp
next
  case (Cons p pre)
  then have "infer_priority (pre @ l # post) = Some q" by simp
  moreover have "label_name p = Some s' \<Longrightarrow> priority_of_value s' = None" for s'
    using Cons.prems by (auto simp: priority_of_value_None)
  ultimately show ?case by (simp split: option.splits)
qed

text \<open>
  C6. When the first label of the card that names a priority names \<open>critical\<close>,
  \<^verbatim>\<open>escalate_task\<close> prints its notice and returns: the only remote call is the read of
  the card, so no card is moved, no label updated and no comment added.
\<close>

theorem escalate_task_critical_noop:
  assumes "respond e (calls w) (GetCard card_id) = Inr (RCard c)"
      and "card_labels c = Some (pre @ l # post)"
      and "label_name l = Some ''critical''"
      and "\<forall>p \<in> set pre. label_name p \<notin> Some ` {''critical'', ''high'', ''medium'', ''low''}"
  shows "escalate_task e self card_id reason w =
           (w\<lparr>calls := calls w @ [GetCard card_id],
              stdout := stdout w @ [''Task is already at highest priority'']\<rparr>, Inr ())"
proof -
  have "infer_priority (pre @ l # post) = Some CRITICAL"
    using infer_priority_first [OF assms(4,3)] by (simp add: priority_of_value_def)
  with assms(1,2) show ?thesis
    by (simp add: escalate_task_def bindM_def call_tool_def liftM_def as_card_def print_def)
qed

text \<open>
  C7. When no label of the card names a priority, \<^verbatim>\<open>current_priority\<close> stays
  \<^verbatim>\<open>None\<close> and \<^verbatim>\<open>priority_order.index\<close> raises ValueError, which leaves
  \<^verbatim>\<open>escalate_task\<close> unhandled; the only remote call is the read of the card.
\<close>

theorem escalate_task_no_priority_raises:
  assumes "respond e (calls w) (GetCard card_id) = Inr (RCard c)"
      and "\<forall>l \<in> set (case card_labels c of Some ls \<Rightarrow> ls | None \<Rightarrow> []).
             label_name l \<notin> Some ` {''critical'', ''high'', ''medium'', ''low''}"
  shows "escalate_task e self card_id reason w =
           (w\<lparr>calls := calls w @ [GetCard card_id]\<rparr>, Inl ValueError)"
proof -
  have "infer_priority (case card_labels c of Some ls \<Rightarrow> ls | None \<Rightarrow> []) = None"
    using infer_priority_none [OF assms(2)] .
  with assms(1) show ?thesis
    by (simp add: escalate_task_def bindM_def call_tool_def liftM_def as_card_def
        priority_order_def)
qed

theorem escalate_task_critical_noop_witness:
  "respond (ex_env (ex_answer (RCard (ex_card ''Outage'' [''bug'', ''critical'', ''low'']))) no_parse)
       (calls ex_world) (GetCard ''c1'')
     = Inr (RCard (ex_card ''Outage'' [''bug'', ''critical'', ''low'']))
   \<and> card_labels (ex_card ''Outage'' [''bug'', ''critical'', ''low''])
     = Some ([\<lparr>label_name = Some ''bug''\<rparr>] @ \<lparr>label_name = Some ''critical''\<rparr>
              # [\<lparr>label_name = Some ''low''\<rparr>])
   \<and> escalate_task (ex_env (ex_answer (RCard (ex_card ''Outage'' [''bug'', ''critical'', ''low''])))
         no_parse) ex_manager ''c1'' ''late'' ex_world
     = (\<lparr>calls = [GetCard ''c1''], ticks = 0,
         stdout = [''Task is already at highest priority'']\<rparr>, Inr ())"
  using escalate_task_critical_noop
    [of "ex_env (ex_answer (RCard (ex_card ''Outage'' [''bug'', ''critical'', ''low'']))) no_parse"
      ex_world "''c1''" "ex_card ''Outage'' [''bug'', ''critical'', ''low'']"
      "[\<lparr>label_name = Some ''bug''\<rparr>]" "\<lparr>label_name = Some ''critical''\<rparr>"
      "[\<lparr>label_name = Some ''low''\<rparr>]" ex_manager "''late''"]
  by (simp add: ex_env_def ex_world_def ex_answer_def ex_card_def)

theorem escalate_task_no_priority_raises_witness:
  "respond (ex_env (ex_answer (RCard (ex_card ''Docs'' [''bug'', ''Critical'']))) no_parse)
       (calls ex_world) (GetCard ''c2'')
     = Inr (RCard (ex_card ''Docs'' [''bug'', ''Critical'']))
   \<and> escalate_task (ex_env (ex_answer (RCard (ex_card ''Docs'' [''bug'', ''Critical''])))
         no_parse) ex_manager ''c2'' ''late'' ex_world
     = (\<lparr>calls = [GetCard ''c2''], ticks = 0, stdout = []\<rparr>, Inl ValueError)"
  using escalate_task_no_priority_raises
    [of "ex_env (ex_answer (RCard (ex_card ''Docs'' [''bug'', ''Critical'']))) no_parse"
      ex_world "''c2''" "ex_card ''Docs'' [''bug'', ''Critical'']" ex_manager "''late''"]
  by (simp add: ex_env_def ex_world_def ex_answer_def ex_card_def)

text \<open>For comparison, a card at high priority is moved, relabelled and commented.\<close>

lemma escalate_task_high_example:
  "\<exists>body. calls (fst (escalate_task
        (ex_env (ex_answer (RCard (ex_card ''Outage'' [''bug'', ''high'']))) no_parse)
        ex_manager ''c1'' ''late'' ex_world)) =
     [GetCard ''c1'', MoveCard ''c1'' ''list-critical'',
      UpdateCardDetails ''c1'' [LabelDict \<lparr>label_name = Some ''bug''\<rparr>, LabelText ''critical''],
      AddComment ''c1'' body]"
  by (simp add: escalate_task_def bindM_def call_tool_def liftM_def as_card_def returnM_def
      now_def ex_env_def ex_answer_def ex_card_def ex_world_def ex_manager_def
      priority_of_value_def priority_order_def py_nth_def)

section \<open>Kanban automation\<close>

lemma ex_kanban_setup:
  "setup_kanban_board (ex_env ex_board no_parse) KanbanAutomation_init ex_world =
     (ex_kanban,
      \<lparr>calls = map AddListToBoard
                 [''Backlog'', ''To Do'', ''In Progress'', ''Review'', ''Testing'', ''Done''],
       ticks = 0, stdout = []\<rparr>,
      Inr ())"
  by (simp add: ex_kanban_def setup_kanban_board_def KanbanAutomation_init_def ex_env_def
      ex_board_def ex_world_def bindM_def call_tool_def liftM_def as_list_def)

lemma ex_kanban_stage_lists:
  "stage_lists ex_kanban ''Shipping'' = None" "stage_lists ex_kanban ''Review'' = Some ''id-Review''"
  by (simp_all add: ex_kanban_def setup_kanban_board_def KanbanAutomation_init_def ex_env_def
      ex_board_def ex_world_def bindM_def call_tool_def liftM_def as_list_def)

lemma setup_stages_dom:
  "setup_stages e stages self w = (self', w', Inr ()) \<Longrightarrow>
     dom (stage_lists self') = dom (stage_lists self) \<union> set stages"
proof (induction stages arbitrary: self w)
  case Nil
  then show ?case by simp
next
  case (Cons stage rest)
  obtain w1 r where b: "bindM (call_tool e (AddListToBoard stage)) (\<lambda>r. liftM (as_list r)) w = (w1, r)"
    by (cases "bindM (call_tool e (AddListToBoard stage)) (\<lambda>r. liftM (as_list r)) w")
  show ?case
  proof (cases r)
    case (Inl err)
    with b Cons.prems show ?thesis by simp
  next
    case (Inr list_data)
    with b Cons.prems have
      "setup_stages e rest (self\<lparr>stage_lists := (stage_lists self)(stage \<mapsto> lst_id list_data)\<rparr>) w1
         = (self', w', Inr ())"
      by simp
    from Cons.IH [OF this] show ?thesis by auto
  qed
qed

text \<open>
  C8. \<^verbatim>\<open>move_card_to_stage\<close> raises ValueError exactly when the stage has no entry in
  \<^verbatim>\<open>stage_lists\<close>, and then it has issued no remote call: the world is as before. On an
  object that \<^verbatim>\<open>setup_kanban_board\<close> has set up, the stages with an entry are the six
  workflow stages.
\<close>

theorem move_card_to_stage_unknown:
  "(snd (move_card_to_stage e self card_id stage comment w) = Inl ValueError
      \<longleftrightarrow> stage_lists self stage = None)
   \<and> (stage_lists self stage = None \<longrightarrow>
        fst (move_card_to_stage e self card_id stage comment w) = w)
   \<and> (setup_kanban_board e0 KanbanAutomation_init w0 = (self, w1, Inr ()) \<longrightarrow>
        (stage_lists self stage = None
           \<longleftrightarrow> stage \<notin> {''Backlog'', ''To Do'', ''In Progress'', ''Review'', ''Testing'', ''Done''}))"
proof -
  have 1: "snd (move_card_to_stage e self card_id stage comment w) = Inl ValueError
      \<longleftrightarrow> stage_lists self stage = None"
    by (auto simp: move_card_to_stage_def raiseM_def bindM_def call_tool_def returnM_def
        split: option.splits sum.splits)
  have 2: "stage_lists self stage = None \<Longrightarrow>
        fst (move_card_to_stage e self card_id stage comment w) = w"
    by (simp add: move_card_to_stage_def raiseM_def)
  have 3: "stage_lists self stage = None
           \<longleftrightarrow> stage \<notin> {''Backlog'', ''To Do'', ''In Progress'', ''Review'', ''Testing'', ''Done''}"
    if "setup_kanban_board e0 KanbanAutomation_init w0 = (self, w1, Inr ())"
  proof -
    from that have "dom (stage_lists self) =
        {''Backlog'', ''To Do'', ''In Progress'', ''Review'', ''Testing'', ''Done''}"
      using setup_stages_dom [of e0 "workflow_stages KanbanAutomation_init" KanbanAutomation_init
          w0 self w1]
      by (simp add: setup_kanban_board_def KanbanAutomation_init_def)
    then show ?thesis by (metis domIff)
  qed
  from 1 2 3 show ?thesis by blast
qed

theorem move_card_to_stage_unknown_witness:
  "snd (snd (setup_kanban_board (ex_env ex_board no_parse) KanbanAutomation_init ex_world)) = Inr ()
   \<and> stage_lists ex_kanban ''Shipping'' = None
   \<and> move_card_to_stage (ex_env (ex_answer ROther) no_parse) ex_kanban ''c1'' ''Shipping''
       (Some ''go'') ex_world = (ex_world, Inl ValueError)
   \<and> stage_lists ex_kanban ''Review'' \<noteq> None
   \<and> snd (move_card_to_stage (ex_env (ex_answer ROther) no_parse) ex_kanban ''c1'' ''Review''
       (Some ''go'') ex_world) \<noteq> Inl ValueError"
  using move_card_to_stage_unknown
      [of "ex_env (ex_answer ROther) no_parse" ex_kanban "''c1''" "''Shipping''" "Some ''go''"
        ex_world "ex_env ex_board no_parse" ex_world
        "fst (snd (setup_kanban_board (ex_env ex_board no_parse) KanbanAutomation_init ex_world))"]
    move_card_to_stage_unknown
      [of "ex_env (ex_answer ROther) no_parse" ex_kanban "''c1''" "''Review''" "Some ''go''"
        ex_world "ex_env ex_board no_parse" ex_world
        "fst (snd (setup_kanban_board (ex_env ex_board no_parse) KanbanAutomation_init ex_world))"]
    ex_kanban_setup
  by (simp add: prod_eq_iff)

lemma apply_wip_limits_append:
  "apply_wip_limits e self (xs @ ys) w =
     (case apply_wip_limits e self xs w of
        (w1, Inl err) \<Rightarrow> (w1, Inl err)
      | (w1, Inr u) \<Rightarrow> apply_wip_limits e self ys w1)"
proof (induction xs arbitrary: w)
  case Nil
  then show ?case by (simp add: returnM_def)
next
  case (Cons x xs)
  obtain stage limit where x: "x = (stage, limit)" by (cases x)
  show ?case
    unfolding x
    by (simp add: Cons.IH bindM_def split: option.splits prod.splits sum.splits)
qed

text \<open>
  C5. Once the stages before it in the limits mapping are processed, a stage with an entry
  in \<^verbatim>\<open>stage_lists\<close> has its list's cards queried, and the warning card is posted to
  that list exactly when the number of cards returned is greater than the limit; with a
  count equal to the limit or below it the query is the only call.
\<close>

theorem apply_wip_limits_warns_iff:
  assumes "apply_wip_limits e self pre w = (w1, Inr ())"
      and "stage_lists self stage = Some lid"
      and "respond e (calls w1) (GetCardsByListId lid) = Inr (RCards cards)"
  shows "if limit < int (length cards)
         then \<exists>a. calls (fst (apply_wip_limits e self (pre @ [(stage, limit)]) w)) =
                     calls w1 @ [GetCardsByListId lid, AddCardToList a]
                \<and> arg_listId a = lid
                \<and> arg_name a = warning_sign @ '' WIP LIMIT EXCEEDED''
                \<and> arg_labels a = Some [''warning'', ''wip-violation'']
         else calls (fst (apply_wip_limits e self (pre @ [(stage, limit)]) w)) =
                calls w1 @ [GetCardsByListId lid]"
proof -
  have "apply_wip_limits e self (pre @ [(stage, limit)]) w =
          apply_wip_limits e self [(stage, limit)] w1"
    using assms(1) by (simp add: apply_wip_limits_append)
  then show ?thesis
    using assms(2,3)
    by (simp add: bindM_def call_tool_def liftM_def as_cards_def returnM_def wip_warning_def
        split: sum.splits)
qed

theorem apply_wip_limits_warns_iff_witness:
  "apply_wip_limits (ex_env ex_board no_parse) ex_kanban [] ex_world = (ex_world, Inr ())
   \<and> stage_lists ex_kanban ''Review'' = Some ''id-Review''
   \<and> respond (ex_env ex_board no_parse) (calls ex_world) (GetCardsByListId ''id-Review'')
       = Inr (RCards [ex_card ''one'' [], ex_card ''two'' [], ex_card ''three'' []])
   \<and> calls (fst (apply_wip_limits (ex_env ex_board no_parse) ex_kanban [(''Review'', 3)] ex_world))
       = [GetCardsByListId ''id-Review'']
   \<and> (\<exists>a. calls (fst (apply_wip_limits (ex_env ex_board no_parse) ex_kanban [(''Review'', 2)]
                        ex_world))
             = [GetCardsByListId ''id-Review'', AddCardToList a]
        \<and> arg_listId a = ''id-Review'')"
proof -
  let ?e = "ex_env ex_board no_parse"
  let ?cards = "[ex_card ''one'' [], ex_card ''two'' [], ex_card ''three'' []]"
  have p: "apply_wip_limits ?e ex_kanban [] ex_world = (ex_world, Inr ())"
    by (simp add: returnM_def)
  have r: "respond ?e (calls ex_world) (GetCardsByListId ''id-Review'') = Inr (RCards ?cards)"
    by (simp add: ex_env_def ex_board_def)
  note t = apply_wip_limits_warns_iff [OF p ex_kanban_stage_lists(2) r]
  from t [of 3] t [of 2] p r ex_kanban_stage_lists(2) show ?thesis
    by (simp add: ex_world_def) blast
qed

section \<open>Retrospectives\<close>

lemma contains_sublist: "contains sub s \<longleftrightarrow> sublist sub s"
  by (induction s) (simp_all add: sublist_Cons_right)

lemma find_none_iff: "find P xs = None \<longleftrightarrow> (\<forall>x \<in> set xs. \<not> P x)"
  by (induction xs) auto

lemma find_first:
  "\<forall>p \<in> set pre. \<not> P p \<Longrightarrow> P x \<Longrightarrow> find P (pre @ x # post) = Some x"
  by (induction pre) auto

text \<open>
  C9. Given the lists the query returns, each with a non-empty identifier,
  \<^verbatim>\<open>add_retro_item\<close> raises ValueError exactly when no list's name contains
  \<^verbatim>\<open>list_name\<close> as a contiguous substring, and then the query is its only call;
  otherwise it creates the vote-annotated card on the first such list in the order returned.
\<close>

theorem add_retro_item_target:
  assumes "respond e (calls w) GetLists = Inr (RLists ls)"
      and "\<forall>l \<in> set ls. lst_id l \<noteq> []"
  shows "(snd (add_retro_item e list_name title body votes w) = Inl ValueError
            \<longleftrightarrow> (\<forall>l \<in> set ls. \<not> sublist list_name (lst_name l)))
       \<and> ((\<forall>l \<in> set ls. \<not> sublist list_name (lst_name l)) \<longrightarrow>
            calls (fst (add_retro_item e list_name title body votes w)) = calls w @ [GetLists])
       \<and> (\<forall>pre l post.
            ls = pre @ l # post \<and> sublist list_name (lst_name l)
              \<and> (\<forall>p \<in> set pre. \<not> sublist list_name (lst_name p)) \<longrightarrow>
            (\<exists>a. calls (fst (add_retro_item e list_name title body votes w)) =
                    calls w @ [GetLists, AddCardToList a]
               \<and> arg_listId a = lst_id l
               \<and> arg_name a = title @ '' ('' @ votes_sign @ '' '' @ str_int votes @ '')''))"
proof -
  let ?P = "\<lambda>l. contains list_name (lst_name l)"
  have none: "add_retro_item e list_name title body votes w =
                (w\<lparr>calls := calls w @ [GetLists]\<rparr>, Inl ValueError)"
    if "\<forall>l \<in> set ls. \<not> sublist list_name (lst_name l)"
  proof -
    from that have "find ?P ls = None" by (simp add: find_none_iff contains_sublist)
    with assms(1) show ?thesis
      by (simp add: add_retro_item_def bindM_def call_tool_def liftM_def as_lists_def raiseM_def)
  qed
  have some: "\<exists>a. calls (fst (add_retro_item e list_name title body votes w)) =
                    calls w @ [GetLists, AddCardToList a]
               \<and> arg_listId a = lst_id l
               \<and> arg_name a = title @ '' ('' @ votes_sign @ '' '' @ str_int votes @ '')''
               \<and> snd (add_retro_item e list_name title body votes w) \<noteq> Inl ValueError"
    if "ls = pre @ l # post" "sublist list_name (lst_name l)"
      "\<forall>p \<in> set pre. \<not> sublist list_name (lst_name p)" for pre l post
  proof -
    from that have f: "find ?P ls = Some l"
      by (simp add: find_first contains_sublist)
    from that(1) assms(2) have "lst_id l \<noteq> []" by simp
    with f assms(1) show ?thesis
      by (simp add: add_retro_item_def bindM_def call_tool_def liftM_def as_lists_def now_def
          retro_card_def split: sum.splits)
  qed
  have neg: "snd (add_retro_item e list_name title body votes w) \<noteq> Inl ValueError"
    if "\<not> (\<forall>l \<in> set ls. \<not> sublist list_name (lst_name l))"
  proof -
    from that have "\<exists>l \<in> set ls. sublist list_name (lst_name l)" by simp
    from split_list_first_prop [OF this]
    obtain pre l post where "ls = pre @ l # post" "sublist list_name (lst_name l)"
      "\<forall>p \<in> set pre. \<not> sublist list_name (lst_name p)"
      by blast
    from some [OF this] show ?thesis by blast
  qed
  have A: "snd (add_retro_item e list_name title body votes w) = Inl ValueError
            \<longleftrightarrow> (\<forall>l \<in> set ls. \<not> sublist list_name (lst_name l))"
    using none neg by (metis snd_conv)
  have B: "(\<forall>l \<in> set ls. \<not> sublist list_name (lst_name l)) \<longrightarrow>
            calls (fst (add_retro_item e list_name title body votes w)) = calls w @ [GetLists]"
    using none by simp
  have C: "\<forall>pre l post.
            ls = pre @ l # post \<and> sublist list_name (lst_name l)
              \<and> (\<forall>p \<in> set pre. \<not> sublist list_name (lst_name p)) \<longrightarrow>
            (\<exists>a. calls (fst (add_retro_item e list_name title body votes w)) =
                    calls w @ [GetLists, AddCardToList a]
               \<and> arg_listId a = lst_id l
               \<and> arg_name a = title @ '' ('' @ votes_sign @ '' '' @ str_int votes @ '')'')"
    using some by blast
  show ?thesis by (rule conjI [OF A conjI [OF B C]])
qed


theorem add_retro_item_target_witness:
  "respond (ex_env (ex_answer (RLists ex_retro_lists)) no_parse) (calls ex_world) GetLists
     = Inr (RLists ex_retro_lists)
   \<and> map lst_id ex_retro_lists = [''r1'', ''r2'', ''r3'']
   \<and> sublist ''Went Well'' (lst_name \<lparr>lst_id = ''r1'', lst_name = ''Sprint 23 - What Went Well''\<rparr>)
   \<and> (\<exists>a. calls (fst (add_retro_item (ex_env (ex_answer (RLists ex_retro_lists)) no_parse)
                        ''Went Well'' ''Shipped'' ''All stories done'' 8 ex_world))
             = [GetLists, AddCardToList a]
        \<and> arg_listId a = ''r1''
        \<and> arg_name a = ''Shipped ('' @ votes_sign @ '' 8)'')
   \<and> snd (add_retro_item (ex_env (ex_answer (RLists ex_retro_lists)) no_parse)
        ''Kudos'' ''Shipped'' ''All stories done'' 8 ex_world) = Inl ValueError
   \<and> calls (fst (add_retro_item (ex_env (ex_answer (RLists ex_retro_lists)) no_parse)
        ''Kudos'' ''Shipped'' ''All stories done'' 8 ex_world)) = [GetLists]"
proof -
  let ?e = "ex_env (ex_answer (RLists ex_retro_lists)) no_parse"
  have r: "respond ?e (calls ex_world) GetLists = Inr (RLists ex_retro_lists)"
    by (simp add: ex_env_def ex_answer_def)
  have i: "\<forall>l \<in> set ex_retro_lists. lst_id l \<noteq> []"
    by (simp add: ex_retro_lists_def)
  have s: "sublist ''Went Well'' ''Sprint 23 - What Went Well''"
    by (simp add: contains_sublist [symmetric])
  have n: "\<forall>l \<in> set ex_retro_lists. \<not> sublist ''Kudos'' (lst_name l)"
    by (simp add: ex_retro_lists_def contains_sublist [symmetric])
  have eight: "str_int 8 = ''8''"
    by code_simp
  note t1 = add_retro_item_target [OF r i, of "''Went Well''" "''Shipped''" "''All stories done''" 8]
  note t2 = add_retro_item_target [OF r i, of "''Kudos''" "''Shipped''" "''All stories done''" 8]
  from t1 have "\<exists>a. calls (fst (add_retro_item ?e ''Went Well'' ''Shipped'' ''All stories done'' 8
                        ex_world)) = calls ex_world @ [GetLists, AddCardToList a]
        \<and> arg_listId a = ''r1''
        \<and> arg_name a = ''Shipped'' @ '' ('' @ votes_sign @ '' '' @ str_int 8 @ '')''"
    using s
    by (simp (no_asm_use) add: ex_retro_lists_def)
       (metis append_Nil empty_iff list.set(1) lst.select_convs(1,2))
  moreover from t2 n have
    "snd (add_retro_item ?e ''Kudos'' ''Shipped'' ''All stories done'' 8 ex_world) = Inl ValueError
     \<and> calls (fst (add_retro_item ?e ''Kudos'' ''Shipped'' ''All stories done'' 8 ex_world))
         = calls ex_world @ [GetLists]"
    by blast
  moreover have "map lst_id ex_retro_lists = [''r1'', ''r2'', ''r3'']"
    by (simp add: ex_retro_lists_def)
  ultimately show ?thesis
    using r s by (simp add: eight ex_world_def)
qed

section \<open>Project analytics\<close>
















lemma check_overdue_plain:
  assumes "plain_card e c"
  shows "\<exists>m'. check_overdue e \<lparr>wall = t, utcoffset = None\<rparr> l c m = Inr m'
           \<and> health_score m' = health_score m - (if overdue e t c then 5 else 0)"
proof (cases "card_due c")
  case None
  then show ?thesis by (simp add: check_overdue_def overdue_def)
next
  case (Some s)
  show ?thesis
  proof (cases "s = []")
    case True
    with Some show ?thesis by (simp add: check_overdue_def overdue_def)
  next
    case False
    with Some assms obtain d n where "fromisoformat e (replace_Z s) = Inr d" "utcoffset d = None"
      "card_name c = Some n"
      by (auto simp: plain_card_def)
    with Some False show ?thesis
      by (simp add: check_overdue_def overdue_def dt_less_def)
  qed
qed

lemma check_blocked_plain:
  assumes "plain_card e c"
  shows "\<exists>m'. check_blocked l c m = Inr m'
           \<and> health_score m' = health_score m - (if blocked c then 3 else 0)"
proof -
  from assms obtain n where "card_name c = Some n" by (auto simp: plain_card_def)
  then show ?thesis by (simp add: check_blocked_def blocked_def list_ex_iff)
qed

lemma td_days_gt_14: "td_days x > 14 \<longleftrightarrow> 15 * 86400000000 \<le> x"
proof -
  have "x = 86400000000 * (x div 86400000000) + x mod 86400000000" by simp
  moreover have "0 \<le> x mod 86400000000" "x mod 86400000000 < 86400000000" by simp_all
  ultimately have "14 < x div 86400000000 \<longleftrightarrow> 15 * 86400000000 \<le> x" by linarith
  then show ?thesis by (simp add: td_days_def day_us_def)
qed

lemma check_stale_plain:
  assumes "plain_card e c"
  shows "\<exists>m'. check_stale e \<lparr>wall = t, utcoffset = None\<rparr> l c m = Inr m'
           \<and> health_score m' = health_score m - (if stale e t c then 1 else 0)"
proof (cases "card_dateLastActivity c")
  case None
  then show ?thesis by (simp add: check_stale_def stale_def)
next
  case (Some s)
  show ?thesis
  proof (cases "s = []")
    case True
    with Some show ?thesis by (simp add: check_stale_def stale_def)
  next
    case False
    with Some assms obtain d n where "fromisoformat e (replace_Z s) = Inr d" "utcoffset d = None"
      "card_name c = Some n"
      by (auto simp: plain_card_def)
    with Some False show ?thesis
      by (simp add: check_stale_def stale_def dt_sub_def td_days_gt_14)
  qed
qed

lemma health_cards_plain:
  assumes "\<forall>c \<in> set cs. plain_card e c"
  shows "\<exists>m'. health_cards e \<lparr>wall = t, utcoffset = None\<rparr> l cs m = Inr m'
           \<and> health_score m' = health_score m - sum_list (map (penalty e t) cs)"
  using assms
proof (induction cs arbitrary: m)
  case Nil
  then show ?case by simp
next
  case (Cons c cs)
  then have p: "plain_card e c" by simp
  let ?now = "\<lparr>wall = t, utcoffset = None\<rparr>"
  from check_overdue_plain [OF p] obtain m1 where
    1: "check_overdue e ?now l c m = Inr m1"
       "health_score m1 = health_score m - (if overdue e t c then 5 else 0)"
    by blast
  from check_blocked_plain [OF p] obtain m2 where
    2: "check_blocked l c m1 = Inr m2"
       "health_score m2 = health_score m1 - (if blocked c then 3 else 0)"
    by blast
  from check_stale_plain [OF p] obtain m3 where
    3: "check_stale e ?now l c m2 = Inr m3"
       "health_score m3 = health_score m2 - (if stale e t c then 1 else 0)"
    by blast
  from Cons.IH [of m3] Cons.prems obtain m' where
    "health_cards e ?now l cs m3 = Inr m'"
    "health_score m' = health_score m3 - sum_list (map (penalty e t) cs)"
    by auto
  moreover have "penalty e t c =
      (if overdue e t c then 5 else 0) + (if blocked c then 3 else 0)
        + (if stale e t c then 1 else 0)"
    by (simp add: penalty_def)
  ultimately show ?case using 1 2 3 by simp
qed

lemma health_lists_plain:
  assumes "\<And>h i. respond e h (GetCardsByListId i) = Inr (RCards (cs i))"
      and "\<forall>l \<in> set ls. \<forall>c \<in> set (cs (lst_id l)). plain_card e c"
  shows "\<exists>w' m'. health_lists e \<lparr>wall = t, utcoffset = None\<rparr> ls m w = (w', Inr m')
           \<and> health_score m' =
               health_score m - (\<Sum>l\<leftarrow>ls. sum_list (map (penalty e t) (cs (lst_id l))))"
  using assms(2)
proof (induction ls arbitrary: m w)
  case Nil
  then show ?case by (simp add: returnM_def)
next
  case (Cons l ls)
  let ?now = "\<lparr>wall = t, utcoffset = None\<rparr>"
  let ?m0 = "m\<lparr>list_stats := dict_set (list_stats m) (lst_name l) (length (cs (lst_id l)), 0),
               total_cards := total_cards m + int (length (cs (lst_id l)))\<rparr>"
  let ?w1 = "w\<lparr>calls := calls w @ [GetCardsByListId (lst_id l)]\<rparr>"
  from Cons.prems have "\<forall>c \<in> set (cs (lst_id l)). plain_card e c" by simp
  from health_cards_plain [OF this, of t l ?m0] obtain m1 where
    1: "health_cards e ?now l (cs (lst_id l)) ?m0 = Inr m1"
       "health_score m1 = health_score m - sum_list (map (penalty e t) (cs (lst_id l)))"
    by auto
  have step: "health_lists e ?now (l # ls) m w = health_lists e ?now ls m1 ?w1"
    using assms(1) 1(1)
    by (simp add: bindM_def call_tool_def liftM_def as_cards_def)
  from Cons.IH [of m1 ?w1] Cons.prems obtain w' m' where
    "health_lists e ?now ls m1 ?w1 = (w', Inr m')"
    "health_score m' =
       health_score m1 - (\<Sum>l\<leftarrow>ls. sum_list (map (penalty e t) (cs (lst_id l))))"
    by auto
  with step 1(2) show ?case by simp
qed

lemma sum_list_penalty:
  "sum_list (map (penalty e t) xs) =
     5 * int (length (filter (overdue e t) xs)) + 3 * int (length (filter blocked xs))
       + int (length (filter (stale e t) xs))"
  by (induction xs) (simp_all add: penalty_def)

text \<open>
  On a board whose cards have names and whose timestamps parse to naive datetimes, the score
  is 100 less 5 per overdue card, 3 per blocked card and 1 per stale card, floored at 0,
  where stale is what \<^verbatim>\<open>timedelta.days > 14\<close> tests: 15 whole days or more without
  activity.
\<close>

lemma generate_health_metrics_plain:
  assumes "\<And>h. respond e h GetLists = Inr (RLists ls)"
      and "\<And>h i. respond e h (GetCardsByListId i) = Inr (RCards (cs i))"
      and "\<forall>l \<in> set ls. \<forall>c \<in> set (cs (lst_id l)). plain_card e c"
  shows "\<exists>w' m. generate_health_metrics e w = (w', Inr m)
           \<and> health_score m =
               max 0 (100
                 - 5 * int (length (filter (overdue e (clock e (Suc (ticks w))))
                                      (concat (map (\<lambda>l. cs (lst_id l)) ls))))
                 - 3 * int (length (filter blocked (concat (map (\<lambda>l. cs (lst_id l)) ls))))
                 - int (length (filter (stale e (clock e (Suc (ticks w))))
                                  (concat (map (\<lambda>l. cs (lst_id l)) ls)))))"
proof -
  let ?t = "clock e (Suc (ticks w))"
  let ?m0 = "\<lparr>timestamp = isoformat e \<lparr>wall = clock e (ticks w), utcoffset = None\<rparr>,
              list_stats = [], overdue_cards = [], blocked_cards = [], stale_cards = [],
              total_cards = 0, health_score = 100\<rparr>"
  let ?w0 = "w\<lparr>calls := calls w @ [GetLists], ticks := Suc (Suc (ticks w))\<rparr>"
  from health_lists_plain [OF assms(2,3), of ?t ?m0 ?w0] obtain w' m' where
    r: "health_lists e \<lparr>wall = ?t, utcoffset = None\<rparr> ls ?m0 ?w0 = (w', Inr m')"
    and s: "health_score m' =
              100 - (\<Sum>l\<leftarrow>ls. sum_list (map (penalty e ?t) (cs (lst_id l))))"
    by auto
  have c: "(\<Sum>l\<leftarrow>ls. sum_list (map (penalty e ?t) (cs (lst_id l)))) =
             sum_list (map (penalty e ?t) (concat (map (\<lambda>l. cs (lst_id l)) ls)))"
    by (induction ls) simp_all
  have p: "health_score (set_percentages m') = health_score m'"
    by (simp add: set_percentages_def)
  have "generate_health_metrics e w =
          (w', Inr ((set_percentages m')\<lparr>health_score := max 0 (health_score m')\<rparr>))"
    using assms(1) r
    by (simp add: generate_health_metrics_def bindM_def now_def call_tool_def liftM_def
        as_lists_def returnM_def p)
  moreover have "health_score m' =
      100 - (5 * int (length (filter (overdue e ?t) (concat (map (\<lambda>l. cs (lst_id l)) ls))))
             + 3 * int (length (filter blocked (concat (map (\<lambda>l. cs (lst_id l)) ls))))
             + int (length (filter (stale e ?t) (concat (map (\<lambda>l. cs (lst_id l)) ls)))))"
    by (simp only: s c) (simp only: sum_list_penalty)
  ultimately show ?thesis by simp
qed

lemma check_overdue_aware:
  assumes "card_due c = Some s" and "s \<noteq> []"
      and "fromisoformat e (replace_Z s) = Inr d" and "utcoffset d \<noteq> None"
      and "utcoffset now_t = None"
  shows "check_overdue e now_t l c m = Inl TypeError"
  using assms by (auto simp: check_overdue_def dt_less_def)

text \<open>
  C2. On a card whose \<^verbatim>\<open>due\<close> carries a UTC offset, which is how the service writes
  its timestamps and what the replacement of \<^verbatim>\<open>Z\<close> prepares for, the parsed datetime is
  aware while \<^verbatim>\<open>now\<close> is naive: the comparison raises TypeError and no score is
  returned.
\<close>

theorem generate_health_metrics_aware_due_raises:
  "generate_health_metrics (ex_env ex_overdue_board ex_parse_utc) ex_world =
     (\<lparr>calls = [GetLists, GetCardsByListId ''t''], ticks = 2, stdout = []\<rparr>, Inl TypeError)"
proof -
  let ?e = "ex_env ex_overdue_board ex_parse_utc"
  let ?c = "\<lparr>card_name = Some ''Pay invoice'', card_labels = None,
             card_due = Some ''2020-01-01T00:00:00.000Z'',
             card_dueComplete = Some False, card_dateLastActivity = None\<rparr>"
  have z: "replace_Z ''2020-01-01T00:00:00.000Z'' = ''2020-01-01T00:00:00.000+00:00''"
    by (simp add: replace_Z_def)
  have p: "fromisoformat ?e (replace_Z ''2020-01-01T00:00:00.000Z'')
          = Inr \<lparr>wall = 63713433600000000, utcoffset = Some 0\<rparr>"
    unfolding z by (simp add: ex_env_def ex_parse_utc_def)
  have o: "check_overdue ?e \<lparr>wall = t, utcoffset = None\<rparr> l ?c m = Inl TypeError" for t l m
  proof (rule check_overdue_aware)
    show "card_due ?c = Some ''2020-01-01T00:00:00.000Z''" by simp
    show "''2020-01-01T00:00:00.000Z'' \<noteq> []" by simp
    show "fromisoformat ?e (replace_Z ''2020-01-01T00:00:00.000Z'')
          = Inr \<lparr>wall = 63713433600000000, utcoffset = Some 0\<rparr>" by (fact p)
    show "utcoffset \<lparr>wall = 63713433600000000, utcoffset = Some 0\<rparr> \<noteq> None" by simp
    show "utcoffset \<lparr>wall = t, utcoffset = None\<rparr> = None" by simp
  qed
  have r: "respond ?e h GetLists = Inr (RLists [\<lparr>lst_id = ''t'', lst_name = ''To Do''\<rparr>])"
    "respond ?e h (GetCardsByListId ''t'') = Inr (RCards [?c])" for h
    by (simp_all add: ex_env_def ex_overdue_board_def)
  show ?thesis
    by (simp add: generate_health_metrics_def bindM_def now_def call_tool_def liftM_def
        as_lists_def as_cards_def r o ex_world_def)
qed

end
